theory Spec2Isabelle
  imports Main "HOL-Library.Word"
begin

section \<open>Values and errors of the host language\<close>

text \<open>
  A \<^verbatim>\<open>Uint8Array\<close> is a list of bytes. The values that the CBOR decoder can hand back
  (and that a caller can pass for an optional flag) are the JavaScript values below; a plain
  object is the list of its own properties.
\<close>

type_synonym bytes = "8 word list"

datatype jsval =
    JUndefined
  | JNull
  | JBool bool
  | JNumber int
  | JString string
  | JBytes bytes
  | JObject "(string \<times> jsval) list"

text \<open>
  Every \<^verbatim>\<open>throw\<close> of the module raises \<^verbatim>\<open>new Error(msg)\<close>; the engine raises a
  \<^verbatim>\<open>TypeError\<close> when \<^verbatim>\<open>null\<close> or \<^verbatim>\<open>undefined\<close> is destructured. Both carry a message.
\<close>

datatype error = Error string | TypeError string

fun message :: "error \<Rightarrow> string" where
  "message (Error msg) = msg"
| "message (TypeError msg) = msg"

definition bind_err :: "error + 'a \<Rightarrow> ('a \<Rightarrow> error + 'b) \<Rightarrow> error + 'b" where
  "bind_err r f = (case r of Inl e \<Rightarrow> Inl e | Inr x \<Rightarrow> f x)"

text \<open>\<^verbatim>\<open>try { body } catch (error) { throw new Error(`${prefix}${error?.message}`) }\<close>\<close>

definition catch_rethrow :: "string \<Rightarrow> error + 'a \<Rightarrow> error + 'a" where
  "catch_rethrow prefix r = (case r of Inl e \<Rightarrow> Inl (Error (prefix @ message e)) | Inr x \<Rightarrow> Inr x)"

text \<open>
  \<^verbatim>\<open>v[k]\<close> for the property names the module reads (\<^verbatim>\<open>sig\<close>, \<^verbatim>\<open>m\<close>, \<^verbatim>\<open>P\<close>, \<^verbatim>\<open>C\<close>,
  \<^verbatim>\<open>P_e\<close>, \<^verbatim>\<open>N\<close>): the own property of a plain object, \<^verbatim>\<open>undefined\<close> on every other value.
\<close>

fun get_prop :: "jsval \<Rightarrow> string \<Rightarrow> jsval" where
  "get_prop (JObject kvs) k = (case map_of kvs k of None \<Rightarrow> JUndefined | Some v \<Rightarrow> v)"
| "get_prop _ k = JUndefined"

text \<open>\<^verbatim>\<open>const { a, b } = v\<close> throws a \<^verbatim>\<open>TypeError\<close> on \<^verbatim>\<open>undefined\<close> and \<^verbatim>\<open>null\<close>
  (the wording of its message is the engine's).\<close>

fun destructure :: "jsval \<Rightarrow> error + unit" where
  "destructure JUndefined = Inl (TypeError ''Cannot destructure undefined'')"
| "destructure JNull = Inl (TypeError ''Cannot destructure null'')"
| "destructure _ = Inr ()"

fun is_Uint8Array :: "jsval \<Rightarrow> bool" where
  "is_Uint8Array (JBytes b) = True"
| "is_Uint8Array _ = False"

fun typeof :: "jsval \<Rightarrow> string" where
  "typeof JUndefined = ''undefined''"
| "typeof JNull = ''object''"
| "typeof (JBool b) = ''boolean''"
| "typeof (JNumber n) = ''number''"
| "typeof (JString s) = ''string''"
| "typeof (JBytes b) = ''object''"
| "typeof (JObject kvs) = ''object''"

text \<open>A default parameter value replaces exactly an \<^verbatim>\<open>undefined\<close> argument.\<close>

definition default_param :: "jsval \<Rightarrow> jsval \<Rightarrow> jsval" where
  "default_param d v = (if v = JUndefined then d else v)"

text \<open>\<^verbatim>\<open>assertType({ name }, "boolean")\<close>. The other uses of \<^verbatim>\<open>assertType\<close> check that an
  argument is a \<^verbatim>\<open>Uint8Array\<close> or an instance of a key class; those arguments are typed
  here, so the check cannot fail and is not written.\<close>

definition assertType_boolean :: "string \<Rightarrow> jsval \<Rightarrow> error + bool" where
  "assertType_boolean variableName variable =
     (case variable of
        JBool b \<Rightarrow> Inr b
      | _ \<Rightarrow> Inl (Error (variableName @ '' ['' @ typeof variable @ ''] is not an instance of [boolean].'')))"

section \<open>Data classes\<close>

text \<open>\<^verbatim>\<open>BinaryData\<close> and its subclasses hold one \<^verbatim>\<open>Uint8Array\<close>; \<^verbatim>\<open>toBinary()\<close> returns it.\<close>

datatype Message = Message (Message_data: bytes)
datatype Signature = Signature (Signature_data: bytes)
datatype PrivateKey = PrivateKey (PrivateKey_data: bytes)
datatype PublicKey = PublicKey (PublicKey_data: bytes)

text \<open>The first argument of the high-level functions: a \<^verbatim>\<open>Message\<close> instance, or any other value.\<close>

datatype message_arg = OfMessage Message | OfValue jsval

section \<open>The external collaborators\<close>

text \<open>
  The object returned by \<^verbatim>\<open>siv(key, nonce)\<close>, with its two methods.
\<close>

record aes =
  encrypt :: "bytes \<Rightarrow> error + bytes"
  decrypt :: "bytes \<Rightarrow> error + bytes"

text \<open>
  The imported library functions are parameters of the model. A call that can throw returns
  a sum; the secure random source is a state \<open>'r\<close> that every draw advances.
  \<^item> \<open>ed25519_verify sig msg pub\<close> is \<^verbatim>\<open>ed25519.verify(sig, msg, pub, { zip215: false })\<close>;
  \<^item> \<open>hkdf_sha256 ikm salt info len\<close> is \<^verbatim>\<open>hkdf(sha256, ikm, salt, info, len)\<close>, the salt
    \<open>None\<close> when \<^verbatim>\<open>undefined\<close> is passed;
  \<^item> \<open>utf8_encode\<close> is \<^verbatim>\<open>new TextEncoder().encode\<close>.
\<close>

record 'r prims =
  ed25519_getPublicKey :: "bytes \<Rightarrow> error + bytes"
  ed25519_sign :: "bytes \<Rightarrow> bytes \<Rightarrow> error + bytes"
  ed25519_verify :: "bytes \<Rightarrow> bytes \<Rightarrow> bytes \<Rightarrow> error + bool"
  x25519_randomPrivateKey :: "'r \<Rightarrow> error + (bytes \<times> 'r)"
  x25519_getPublicKey :: "bytes \<Rightarrow> error + bytes"
  x25519_getSharedSecret :: "bytes \<Rightarrow> bytes \<Rightarrow> error + bytes"
  edwardsToMontgomeryPub :: "bytes \<Rightarrow> error + bytes"
  edwardsToMontgomeryPriv :: "bytes \<Rightarrow> error + bytes"
  ripemd160 :: "bytes \<Rightarrow> bytes"
  hkdf_sha256 :: "bytes \<Rightarrow> bytes option \<Rightarrow> bytes \<Rightarrow> nat \<Rightarrow> error + bytes"
  siv :: "bytes \<Rightarrow> bytes \<Rightarrow> error + aes"
  randomBytes :: "nat \<Rightarrow> 'r \<Rightarrow> error + (bytes \<times> 'r)"
  cbor_encode :: "jsval \<Rightarrow> bytes"
  cbor_decode :: "bytes \<Rightarrow> error + jsval"
  utf8_encode :: "string \<Rightarrow> bytes"

text \<open>
  Modelled from the spec: \<^verbatim>\<open>bytesToHex\<close> of the hash library is not part of the sources;
  the KeyId is "rendered as lowercase hex", two digits for each byte, the high one first.
\<close>

definition hexes :: string where
  "hexes = ''0123456789abcdef''"

definition byteToHex :: "8 word \<Rightarrow> string" where
  "byteToHex b = [hexes ! (unat b div 16), hexes ! (unat b mod 16)]"

definition bytesToHex :: "bytes \<Rightarrow> string" where
  "bytesToHex bs = concat (map byteToHex bs)"

text \<open>The value of a hexadecimal digit, to read a rendering back.\<close>

definition hex_digit_value :: "char \<Rightarrow> nat" where
  "hex_digit_value c =
     (let n = of_char c in if 48 \<le> n \<and> n \<le> 57 then n - 48 else n - 87)"

section \<open>ECIES core\<close>

definition deriveAesKey :: "'r prims \<Rightarrow> bytes \<Rightarrow> error + bytes" where
  "deriveAesKey P sharedSecret =
     (let info = utf8_encode P ''suite25519-aes-key''
      in hkdf_sha256 P sharedSecret None info 32)"

definition eciesEncrypt :: "'r prims \<Rightarrow> bytes \<Rightarrow> bytes \<Rightarrow> 'r \<Rightarrow> error + (jsval \<times> 'r)" where
  "eciesEncrypt P receiverPublicKeyEd messageUint8Array rng =
     catch_rethrow ''eciesEncrypt failed: ''
       (bind_err (edwardsToMontgomeryPub P receiverPublicKeyEd) (\<lambda>receiverPublicKeyX.
        bind_err (x25519_randomPrivateKey P rng) (\<lambda>(ephemeralPrivateKeyX, rng1).
        bind_err (x25519_getPublicKey P ephemeralPrivateKeyX) (\<lambda>ephemeralPublicKeyX.
        bind_err (x25519_getSharedSecret P ephemeralPrivateKeyX receiverPublicKeyX) (\<lambda>sharedSecret.
        bind_err (deriveAesKey P sharedSecret) (\<lambda>aesKey.
        bind_err (randomBytes P 12 rng1) (\<lambda>(nonce, rng2).
        bind_err (siv P aesKey nonce) (\<lambda>aes.
        bind_err (encrypt aes messageUint8Array) (\<lambda>ciphertext.
        Inr (JObject [(''C'', JBytes ciphertext),
                      (''P_e'', JBytes ephemeralPublicKeyX),
                      (''N'', JBytes nonce)], rng2))))))))))"

text \<open>The inner \<^verbatim>\<open>catch\<close> replaces whatever \<^verbatim>\<open>aes.decrypt\<close> threw (after logging it) by one
  fixed error, which the outer \<^verbatim>\<open>catch\<close> then wraps like every other error of the body.\<close>

definition eciesDecrypt :: "'r prims \<Rightarrow> bytes \<Rightarrow> bytes \<Rightarrow> bytes \<Rightarrow> bytes \<Rightarrow> error + bytes" where
  "eciesDecrypt P receiverPrivateKeyEd ephemeralPublicKeyX nonce ciphertext =
     catch_rethrow ''eciesDecrypt failed: ''
       (bind_err (edwardsToMontgomeryPriv P receiverPrivateKeyEd) (\<lambda>receiverPrivateKeyX.
        bind_err (x25519_getSharedSecret P receiverPrivateKeyX ephemeralPublicKeyX) (\<lambda>sharedSecret.
        bind_err (deriveAesKey P sharedSecret) (\<lambda>aesKey.
        bind_err (siv P aesKey nonce) (\<lambda>aes.
          (case decrypt aes ciphertext of
             Inl e \<Rightarrow> Inl (Error ''Decryption failed (authentication tag mismatch or other error)'')
           | Inr plaintext \<Rightarrow> Inr plaintext))))))"

section \<open>Message and key classes\<close>

text \<open>The type named in the error of the \<^verbatim>\<open>Message\<close> constructor.\<close>

fun dataType :: "jsval \<Rightarrow> string" where
  "dataType (JObject kvs) = ''Object''"
| "dataType v = typeof v"

definition new_Message :: "'r prims \<Rightarrow> jsval \<Rightarrow> error + Message" where
  "new_Message P data =
     (case data of
        JBytes b \<Rightarrow> Inr (Message b)
      | JString s \<Rightarrow> Inr (Message (utf8_encode P s))
      | _ \<Rightarrow> Inl (Error (''Invalid data type for Message constructor: Expected string or Uint8Array, got ''
                         @ dataType data)))"

text \<open>\<^verbatim>\<open>x instanceof Message ? x : new Message(x)\<close>\<close>

definition as_Message :: "'r prims \<Rightarrow> message_arg \<Rightarrow> error + Message" where
  "as_Message P x = (case x of OfMessage msg \<Rightarrow> Inr msg | OfValue v \<Rightarrow> new_Message P v)"

definition PrivateKey_publicKey :: "'r prims \<Rightarrow> PrivateKey \<Rightarrow> error + PublicKey" where
  "PrivateKey_publicKey P this =
     bind_err (ed25519_getPublicKey P (PrivateKey_data this)) (\<lambda>publicKeyData.
     Inr (PublicKey publicKeyData))"

definition PublicKey_id :: "'r prims \<Rightarrow> PublicKey \<Rightarrow> string" where
  "PublicKey_id P this = bytesToHex (ripemd160 P (PublicKey_data this))"

text \<open>An exception of the signature primitive is caught (and logged) and \<^verbatim>\<open>false\<close> is returned.\<close>

definition PublicKey_verify :: "'r prims \<Rightarrow> PublicKey \<Rightarrow> message_arg \<Rightarrow> Signature \<Rightarrow> error + bool" where
  "PublicKey_verify P this messageData signature =
     bind_err (as_Message P messageData) (\<lambda>msg.
       (case ed25519_verify P (Signature_data signature) (Message_data msg) (PublicKey_data this) of
          Inl e \<Rightarrow> Inr False
        | Inr valid \<Rightarrow> (if \<not> valid then Inr False else Inr True)))"

section \<open>High-level API\<close>

definition signMessage ::
  "'r prims \<Rightarrow> message_arg \<Rightarrow> PrivateKey \<Rightarrow> jsval \<Rightarrow> jsval \<Rightarrow> error + bytes" where
  "signMessage P plainMessage signingPrivateKey includeMessage0 includeSenderPublicKey0 =
     (let includeMessage = default_param (JBool False) includeMessage0;
          includeSenderPublicKey = default_param (JBool False) includeSenderPublicKey0
      in
      bind_err (assertType_boolean ''includeMessage'' includeMessage) (\<lambda>inclM.
      bind_err (assertType_boolean ''includeSenderPublicKey'' includeSenderPublicKey) (\<lambda>inclP.
      bind_err (as_Message P plainMessage) (\<lambda>msg.
      let messageBinary = Message_data msg in
      bind_err (ed25519_sign P messageBinary (PrivateKey_data signingPrivateKey)) (\<lambda>sig.
      let result = [(''sig'', JBytes sig)];
          result = (if inclM then result @ [(''m'', JBytes messageBinary)] else result)
      in
      bind_err (if inclP
                then bind_err (PrivateKey_publicKey P signingPrivateKey) (\<lambda>pk.
                       Inr (result @ [(''P'', JBytes (PublicKey_data pk))]))
                else Inr result) (\<lambda>result.
      Inr (cbor_encode P (JObject result))))))))"

text \<open>
  After the three structure checks \<^verbatim>\<open>sig\<close> is a \<^verbatim>\<open>Uint8Array\<close>, and \<^verbatim>\<open>m\<close> and \<^verbatim>\<open>P\<close> are
  each \<^verbatim>\<open>undefined\<close> or a \<^verbatim>\<open>Uint8Array\<close> (which is truthy, also when empty); so
  \<^verbatim>\<open>if (P)\<close> and \<^verbatim>\<open>if (m === undefined)\<close> are the two case distinctions below.
\<close>

definition verifyMessage :: "'r prims \<Rightarrow> bytes \<Rightarrow> PublicKey \<Rightarrow> error + bytes" where
  \<open>verifyMessage P signedPayload senderPublicKey =
     bind_err (cbor_decode P signedPayload) (\<lambda>decoded.
     bind_err (destructure decoded) (\<lambda>_.
     let sig = get_prop decoded ''sig''; m = get_prop decoded ''m''; Pk = get_prop decoded ''P'' in
     (case sig of
        JBytes sigBytes \<Rightarrow>
          if m \<noteq> JUndefined \<and> \<not> is_Uint8Array m
          then Inl (Error ''Invalid signed payload: Included message "m" is not Uint8Array.'')
          else if Pk \<noteq> JUndefined \<and> \<not> is_Uint8Array Pk
          then Inl (Error ''Invalid signed payload: Included public key "P" is not Uint8Array.'')
          else
            bind_err (case Pk of
                        JBytes PBytes \<Rightarrow>
                          let includedPublicKey = PublicKey PBytes in
                          if PublicKey_id P includedPublicKey \<noteq> PublicKey_id P senderPublicKey
                          then Inl (Error ''Verification failed: Included public key 'P' does not match expected senderPublicKey.'')
                          else Inr ()
                      | _ \<Rightarrow> Inr ()) (\<lambda>_.
            (case m of
               JBytes mBytes \<Rightarrow>
                 let signature = Signature sigBytes; msg = Message mBytes in
                 bind_err (PublicKey_verify P senderPublicKey (OfMessage msg) signature) (\<lambda>ok.
                 if \<not> ok then Inl (Error ''Verification failed: Invalid signature.'')
                 else Inr mBytes)
             | _ \<Rightarrow> Inl (Error ''Verification failed: Message 'm' not included in the signed payload.'')))
      | _ \<Rightarrow> Inl (Error ''Invalid signed payload: Missing or invalid signature.''))))\<close>


definition decryptMessage :: "'r prims \<Rightarrow> bytes \<Rightarrow> PrivateKey \<Rightarrow> error + bytes" where
  "decryptMessage P encryptedPayload recipientPrivateKey =
     bind_err (cbor_decode P encryptedPayload) (\<lambda>decoded.
     bind_err (destructure decoded) (\<lambda>_.
     (case (get_prop decoded ''C'', get_prop decoded ''P_e'', get_prop decoded ''N'') of
        (JBytes C, JBytes P_e, JBytes N) \<Rightarrow>
          eciesDecrypt P (PrivateKey_data recipientPrivateKey) P_e N C
      | _ \<Rightarrow> Inl (Error ''Invalid encrypted payload structure after CBOR decoding.''))))"



section \<open>Contracts of the collaborators\<close>

text \<open>
  What the operations rely on from the imported libraries, each as a predicate on the
  parameters: the codec decodes what it encoded (for the objects that the module builds:
  byte strings under distinct names among \<^verbatim>\<open>sig\<close>, \<^verbatim>\<open>m\<close>, \<^verbatim>\<open>P\<close>, \<^verbatim>\<open>C\<close>,
  \<^verbatim>\<open>P_e\<close>, \<^verbatim>\<open>N\<close>), a signature made with a private key verifies under the derived public key,
  both sides of the key agreement reach the same secret, the random source and the key
  derivation deliver the number of bytes asked for, the cipher decrypts what it encrypted
  under a 32-byte key and a 12-byte nonce, and the hash is 20 bytes wide.
\<close>

definition envelope_keys :: "string set" where
  "envelope_keys = {''sig'', ''m'', ''P'', ''C'', ''P_e'', ''N''}"

definition cbor_roundtrip :: "'r prims \<Rightarrow> bool" where
  "cbor_roundtrip P \<longleftrightarrow>
     (\<forall>kvs. distinct (map fst kvs) \<and> set (map fst kvs) \<subseteq> envelope_keys \<and>
            (\<forall>kv\<in>set kvs. is_Uint8Array (snd kv)) \<longrightarrow>
        cbor_decode P (cbor_encode P (JObject kvs)) = Inr (JObject kvs))"

definition signature_correct :: "'r prims \<Rightarrow> bool" where
  "signature_correct P \<longleftrightarrow>
     (\<forall>priv pub m. ed25519_getPublicKey P priv = Inr pub \<longrightarrow>
        (\<exists>s. ed25519_sign P m priv = Inr s \<and> ed25519_verify P s m pub = Inr True))"

definition agreement_correct :: "'r prims \<Rightarrow> bool" where
  "agreement_correct P \<longleftrightarrow>
     (\<forall>priv pub. ed25519_getPublicKey P priv = Inr pub \<longrightarrow>
        (\<exists>X x. edwardsToMontgomeryPub P pub = Inr X \<and> edwardsToMontgomeryPriv P priv = Inr x \<and>
           (\<forall>rng e rng'. x25519_randomPrivateKey P rng = Inr (e, rng') \<longrightarrow>
              (\<exists>E s. x25519_getPublicKey P e = Inr E \<and>
                     x25519_getSharedSecret P e X = Inr s \<and>
                     x25519_getSharedSecret P x E = Inr s))))"

definition random_source_ok :: "'r prims \<Rightarrow> bool" where
  "random_source_ok P \<longleftrightarrow>
     (\<forall>rng. \<exists>e rng'. x25519_randomPrivateKey P rng = Inr (e, rng')) \<and>
     (\<forall>rng. \<exists>b rng'. randomBytes P 12 rng = Inr (b, rng') \<and> length b = 12)"

definition kdf_ok :: "'r prims \<Rightarrow> bool" where
  "kdf_ok P \<longleftrightarrow> (\<forall>ikm info. \<exists>k. hkdf_sha256 P ikm None info 32 = Inr k \<and> length k = 32)"

definition aead_correct :: "'r prims \<Rightarrow> bool" where
  "aead_correct P \<longleftrightarrow>
     (\<forall>k n. length k = 32 \<and> length n = 12 \<longrightarrow>
        (\<exists>a. siv P k n = Inr a \<and> (\<forall>m. \<exists>c. encrypt a m = Inr c \<and> decrypt a c = Inr m)))"

definition hash_width_ok :: "'r prims \<Rightarrow> bool" where
  "hash_width_ok P \<longleftrightarrow> (\<forall>x. length (ripemd160 P x) = 20)"

section \<open>A small instance of the collaborators\<close>

text \<open>
  The contracts above are satisfiable: the instance below meets all of them. It is a stand-in
  with none of the security of the real primitives (public keys are a bytewise multiple of the
  private key, the shared secret is a bytewise product, the authentication tag is a key
  prefix), used to exhibit concrete runs of the operations. Like the real primitive, its
  signature check throws on a signature that is not 64 bytes long, and its cipher refuses
  keys and nonces of the wrong length.
\<close>

definition toy_scalarMult :: "bytes \<Rightarrow> bytes" where
  "toy_scalarMult k = map (\<lambda>b. 3 * b) k"

definition toy_digest :: "bytes \<Rightarrow> bytes" where
  "toy_digest m = take 32 (m @ replicate 32 0)"

fun toy_dec :: "bytes \<Rightarrow> (string \<times> bytes \<times> (string \<times> jsval) list) option" where
  "toy_dec [] = Some ([], [], [])"
| "toy_dec [t] = None"
| "toy_dec (t # x # rest) =
     (case toy_dec rest of
        None \<Rightarrow> None
      | Some (k, v, es) \<Rightarrow>
          if t = 1 then Some (char_of (unat x) # k, v, es)
          else if t = 2 then Some (k, x # v, es)
          else if t = 3 then Some ([], [], (k, JBytes v) # es)
          else None)"

fun toy_bytes_of :: "jsval \<Rightarrow> bytes" where
  "toy_bytes_of (JBytes b) = b"
| "toy_bytes_of _ = []"

definition toy_enc_entry :: "string \<times> jsval \<Rightarrow> bytes" where
  "toy_enc_entry kv =
     [3, 0] @ concat (map (\<lambda>c. [1, of_nat (of_char c)]) (fst kv))
            @ concat (map (\<lambda>b. [2, b]) (toy_bytes_of (snd kv)))"

fun toy_encode :: "jsval \<Rightarrow> bytes" where
  "toy_encode (JObject kvs) = concat (map toy_enc_entry kvs)"
| "toy_encode _ = []"

definition toy_decode :: "bytes \<Rightarrow> error + jsval" where
  "toy_decode bs = (case toy_dec bs of
                      None \<Rightarrow> Inl (Error ''Unexpected end of CBOR data'')
                    | Some (k, v, es) \<Rightarrow> Inr (JObject es))"

definition toy_siv :: "bytes \<Rightarrow> bytes \<Rightarrow> error + aes" where
  "toy_siv k n =
     (if length k = 32 \<and> length n = 12
      then Inr \<lparr> encrypt = (\<lambda>m. Inr (take 16 k @ m)),
                 decrypt = (\<lambda>c. if take 16 c = take 16 k then Inr (drop 16 c)
                                 else Inl (Error ''invalid ghash tag'')) \<rparr>
      else Inl (Error ''invalid key or nonce length''))"

definition toy :: "nat prims" where
  "toy = \<lparr>
     ed25519_getPublicKey = (\<lambda>priv. if length priv = 32 then Inr (toy_scalarMult priv)
                                     else Inl (Error ''private key of length 32 expected'')),
     ed25519_sign = (\<lambda>m priv. if length priv = 32 then Inr (toy_scalarMult priv @ toy_digest m)
                               else Inl (Error ''private key of length 32 expected'')),
     ed25519_verify = (\<lambda>s m pub. if length s = 64 then Inr (s = pub @ toy_digest m)
                                  else Inl (Error ''signature of length 64 expected'')),
     x25519_randomPrivateKey = (\<lambda>r. Inr (replicate 32 (of_nat r), Suc r)),
     x25519_getPublicKey = (\<lambda>e. Inr (toy_scalarMult e)),
     x25519_getSharedSecret = (\<lambda>a B. Inr (map2 (*) a B)),
     edwardsToMontgomeryPub = Inr,
     edwardsToMontgomeryPriv = Inr,
     ripemd160 = (\<lambda>x. take 20 (x @ replicate 20 0)),
     hkdf_sha256 = (\<lambda>ikm salt info n. Inr (take n (ikm @ info @ replicate n 0))),
     siv = toy_siv,
     randomBytes = (\<lambda>n r. Inr (replicate n (of_nat r), Suc r)),
     cbor_encode = toy_encode,
     cbor_decode = toy_decode,
     utf8_encode = map (\<lambda>c. of_nat (of_char c))
   \<rparr>"

section \<open>Basic facts\<close>

lemma bind_err_Inr [simp]: "bind_err (Inr x) f = f x"
  by (simp add: bind_err_def)

lemma bind_err_Inl [simp]: "bind_err (Inl e) f = Inl e"
  by (simp add: bind_err_def)

lemma catch_rethrow_Inr [simp]: "catch_rethrow prefix (Inr x) = Inr x"
  by (simp add: catch_rethrow_def)

lemma catch_rethrow_Inl [simp]: "catch_rethrow prefix (Inl e) = Inl (Error (prefix @ message e))"
  by (simp add: catch_rethrow_def)

lemma bind_err_eq_Inr:
  "bind_err r f = Inr y \<longleftrightarrow> (\<exists>x. r = Inr x \<and> f x = Inr y)"
  by (cases r) simp_all

lemma catch_rethrow_eq_Inr: "catch_rethrow prefix r = Inr y \<longleftrightarrow> r = Inr y"
  by (cases r) simp_all

subsection \<open>The small instance meets the contracts\<close>

lemma toy_dec_key:
  "toy_dec rest = Some (k', v', es) \<Longrightarrow>
   toy_dec (concat (map (\<lambda>c. [1, of_nat (of_char c)]) k) @ rest) = Some (k @ k', v', es)"
  by (induction k) (simp_all add: unat_of_nat)

lemma toy_dec_val:
  "toy_dec rest = Some (k', v', es) \<Longrightarrow>
   toy_dec (concat (map (\<lambda>b. [2, b]) v) @ rest) = Some (k', v @ v', es)"
  by (induction v) simp_all

lemma toy_dec_entries:
  "\<forall>kv\<in>set kvs. is_Uint8Array (snd kv) \<Longrightarrow>
   toy_dec (concat (map toy_enc_entry kvs)) = Some ([], [], kvs)"
proof (induction kvs)
  case Nil
  show ?case by simp
next
  case (Cons kv kvs)
  obtain k v where kv: "kv = (k, JBytes v)"
    using Cons.prems by (cases kv; cases "snd kv") auto
  define R where "R = concat (map toy_enc_entry kvs)"
  have rest: "toy_dec R = Some ([], [], kvs)"
    using Cons by (simp add: R_def)
  have inner: "toy_dec (concat (map (\<lambda>c. [1, of_nat (of_char c)]) k) @ concat (map (\<lambda>b. [2, b]) v) @ R)
                 = Some (k, v, kvs)"
    using toy_dec_key [OF toy_dec_val [OF rest, of v], of k] by simp
  have "concat (map toy_enc_entry (kv # kvs))
          = 3 # 0 # (concat (map (\<lambda>c. [1, of_nat (of_char c)]) k) @ concat (map (\<lambda>b. [2, b]) v) @ R)"
    by (simp add: kv toy_enc_entry_def R_def)
  then show ?case
    by (simp add: inner kv)
qed

lemma toy_cbor_roundtrip: "cbor_roundtrip toy"
  by (simp add: cbor_roundtrip_def toy_def toy_decode_def toy_dec_entries)

lemma toy_signature_correct: "signature_correct toy"
  by (auto simp: signature_correct_def toy_def toy_scalarMult_def toy_digest_def split: if_splits)

lemma toy_shared_comm:
  "map2 (*) e (toy_scalarMult p) = map2 (*) p (toy_scalarMult e)"
  unfolding toy_scalarMult_def
  by (induction e p rule: list_induct2') (simp_all add: mult.left_commute)

lemma toy_agreement_correct: "agreement_correct toy"
  by (auto simp: agreement_correct_def toy_def toy_shared_comm split: if_splits)

lemma toy_random_source_ok: "random_source_ok toy"
  by (simp add: random_source_ok_def toy_def)

lemma toy_kdf_ok: "kdf_ok toy"
  by (auto simp: kdf_ok_def toy_def)

lemma toy_aead_correct: "aead_correct toy"
  by (simp add: aead_correct_def toy_def toy_siv_def)

lemma toy_hash_width_ok: "hash_width_ok toy"
  by (auto simp: hash_width_ok_def toy_def)

section \<open>Hexadecimal rendering\<close>

lemma length_hexes: "length hexes = 16"
  by (simp add: hexes_def)

lemma hex_digit_value_table: "list_all (\<lambda>d. hex_digit_value (hexes ! d) = d) [0..<16]"
  by code_simp

lemma hex_digit_value_hexes: "d < 16 \<Longrightarrow> hex_digit_value (hexes ! d) = d"
  using hex_digit_value_table by (simp add: list_all_iff)

lemma unat_byte_div: "unat (b :: 8 word) div 16 < 16"
proof -
  have "unat b < 256" using unsigned_less [of b] by simp
  then show ?thesis by simp
qed

lemma length_bytesToHex: "length (bytesToHex bs) = 2 * length bs"
  by (induction bs) (simp_all add: bytesToHex_def byteToHex_def)

lemma set_bytesToHex: "set (bytesToHex bs) \<subseteq> set hexes"
proof (induction bs)
  case Nil
  show ?case by (simp add: bytesToHex_def)
next
  case (Cons b bs)
  have "hexes ! (unat b div 16) \<in> set hexes" "hexes ! (unat b mod 16) \<in> set hexes"
    using unat_byte_div [of b] by (simp_all add: length_hexes)
  then show ?case
    using Cons by (simp add: bytesToHex_def byteToHex_def)
qed

lemma bytesToHex_nth:
  "i < length bs \<Longrightarrow>
   bytesToHex bs ! (2 * i) = hexes ! (unat (bs ! i) div 16) \<and>
   bytesToHex bs ! (2 * i + 1) = hexes ! (unat (bs ! i) mod 16)"
proof (induction bs arbitrary: i)
  case Nil
  then show ?case by simp
next
  case (Cons b bs)
  show ?case
  proof (cases i)
    case 0
    then show ?thesis by (simp add: bytesToHex_def byteToHex_def)
  next
    case (Suc j)
    then have "j < length bs" using Cons.prems by simp
    from Cons.IH [OF this] show ?thesis
      by (simp add: Suc bytesToHex_def byteToHex_def)
  qed
qed

lemma bytesToHex_value:
  assumes "i < length bs"
  shows "16 * hex_digit_value (bytesToHex bs ! (2 * i)) + hex_digit_value (bytesToHex bs ! (2 * i + 1))
           = unat (bs ! i)"
proof -
  have "hex_digit_value (hexes ! (unat (bs ! i) div 16)) = unat (bs ! i) div 16"
    by (rule hex_digit_value_hexes) (rule unat_byte_div)
  moreover have "hex_digit_value (hexes ! (unat (bs ! i) mod 16)) = unat (bs ! i) mod 16"
    by (rule hex_digit_value_hexes) simp
  ultimately show ?thesis
    using bytesToHex_nth [OF assms] by simp
qed

section \<open>Signing and verifying\<close>

lemma signMessage_included:
  assumes "as_Message P m = Inr msg"
    and "ed25519_sign P (Message_data msg) (PrivateKey_data priv) = Inr s"
    and "PrivateKey_publicKey P priv = Inr pub"
  shows "signMessage P m priv (JBool True) (JBool True) =
           Inr (cbor_encode P (JObject [(''sig'', JBytes s), (''m'', JBytes (Message_data msg)),
                                        (''P'', JBytes (PublicKey_data pub))]))"
  using assms by (simp add: signMessage_def default_param_def assertType_boolean_def)

lemma signMessage_bare:
  assumes "as_Message P m = Inr msg"
    and "ed25519_sign P (Message_data msg) (PrivateKey_data priv) = Inr s"
  shows "signMessage P m priv JUndefined JUndefined =
           Inr (cbor_encode P (JObject [(''sig'', JBytes s)]))"
  using assms by (simp add: signMessage_def default_param_def assertType_boolean_def)

lemma publicKey_data:
  "PrivateKey_publicKey P priv = Inr pub \<Longrightarrow>
   ed25519_getPublicKey P (PrivateKey_data priv) = Inr (PublicKey_data pub)"
  by (auto simp: PrivateKey_publicKey_def bind_err_eq_Inr)

lemma decode_encoded:
  "cbor_roundtrip P \<Longrightarrow> distinct (map fst kvs) \<Longrightarrow> set (map fst kvs) \<subseteq> envelope_keys \<Longrightarrow>
   \<forall>kv\<in>set kvs. is_Uint8Array (snd kv) \<Longrightarrow>
   cbor_decode P (cbor_encode P (JObject kvs)) = Inr (JObject kvs)"
  by (simp add: cbor_roundtrip_def)

lemma verifyMessage_full:
  assumes "cbor_decode P payload = Inr (JObject [(''sig'', JBytes s), (''m'', JBytes mb), (''P'', JBytes p)])"
  shows "verifyMessage P payload pk =
     (if PublicKey_id P (PublicKey p) \<noteq> PublicKey_id P pk
      then Inl (Error ''Verification failed: Included public key 'P' does not match expected senderPublicKey.'')
      else case ed25519_verify P s mb (PublicKey_data pk) of
             Inr True \<Rightarrow> Inr mb
           | _ \<Rightarrow> Inl (Error ''Verification failed: Invalid signature.''))"
  using assms
  by (simp add: verifyMessage_def PublicKey_verify_def as_Message_def split: sum.splits bool.splits)

lemma get_prop_Bytes_destructure:
  "get_prop decoded k = JBytes b \<Longrightarrow> destructure decoded = Inr ()"
  by (cases decoded) simp_all

lemma verifyMessage_mismatch:
  assumes "cbor_decode P payload = Inr decoded"
    and "get_prop decoded ''sig'' = JBytes s"
    and "get_prop decoded ''m'' = JUndefined \<or> is_Uint8Array (get_prop decoded ''m'')"
    and "get_prop decoded ''P'' = JBytes p"
    and "PublicKey_id P (PublicKey p) \<noteq> PublicKey_id P expected"
  shows "verifyMessage P payload expected =
           Inl (Error ''Verification failed: Included public key 'P' does not match expected senderPublicKey.'')"
  using assms get_prop_Bytes_destructure [OF assms(2)]
  by (auto simp: verifyMessage_def)

lemma verifyMessage_Inr_D:
  assumes "verifyMessage P payload pk = Inr r"
  obtains decoded s where "cbor_decode P payload = Inr decoded"
    and "get_prop decoded ''sig'' = JBytes s"
    and "get_prop decoded ''m'' = JBytes r"
    and "get_prop decoded ''P'' = JUndefined \<or>
         (\<exists>p. get_prop decoded ''P'' = JBytes p \<and> PublicKey_id P (PublicKey p) = PublicKey_id P pk)"
    and "ed25519_verify P s r (PublicKey_data pk) = Inr True"
proof -
  obtain decoded where d: "cbor_decode P payload = Inr decoded"
    using assms by (cases "cbor_decode P payload") (simp_all add: verifyMessage_def)
  have ds: "destructure decoded = Inr ()"
    using assms d by (cases "destructure decoded") (simp_all add: verifyMessage_def)
  obtain s where s: "get_prop decoded ''sig'' = JBytes s"
    using assms d ds by (cases "get_prop decoded ''sig''") (simp_all add: verifyMessage_def)
  have rest: "get_prop decoded ''m'' = JBytes r \<and>
     (get_prop decoded ''P'' = JUndefined \<or>
         (\<exists>p. get_prop decoded ''P'' = JBytes p \<and> PublicKey_id P (PublicKey p) = PublicKey_id P pk)) \<and>
     ed25519_verify P s r (PublicKey_data pk) = Inr True"
    using assms d ds s
    by (cases "get_prop decoded ''m''"; cases "get_prop decoded ''P''")
       (auto simp: verifyMessage_def PublicKey_verify_def as_Message_def Let_def
             split: if_splits sum.splits)
  show ?thesis using that d s rest by blast
qed

lemma verifyMessage_bad_signature:
  assumes "cbor_decode P payload = Inr decoded"
    and "get_prop decoded ''sig'' = JBytes s"
    and "get_prop decoded ''m'' = JBytes mb"
    and "get_prop decoded ''P'' = JUndefined \<or>
         (\<exists>p. get_prop decoded ''P'' = JBytes p \<and> PublicKey_id P (PublicKey p) = PublicKey_id P pk)"
    and "ed25519_verify P s mb (PublicKey_data pk) \<noteq> Inr True"
  shows "verifyMessage P payload pk = Inl (Error ''Verification failed: Invalid signature.'')"
  using assms get_prop_Bytes_destructure [OF assms(2)]
  by (auto simp: verifyMessage_def PublicKey_verify_def as_Message_def split: sum.splits)

lemma verifyMessage_no_message:
  assumes "cbor_decode P payload = Inr decoded" and "get_prop decoded ''m'' = JUndefined"
  shows "\<exists>e. verifyMessage P payload pk = Inl e"
proof (cases "verifyMessage P payload pk")
  case (Inl e)
  then show ?thesis by blast
next
  case (Inr r)
  then show ?thesis
    using assms by (auto elim!: verifyMessage_Inr_D)
qed

lemma verifyMessage_signature_only:
  assumes "cbor_decode P payload = Inr (JObject [(''sig'', JBytes s)])"
  shows "verifyMessage P payload pk =
           Inl (Error ''Verification failed: Message 'm' not included in the signed payload.'')"
  using assms by (simp add: verifyMessage_def)

section \<open>Encrypting and decrypting\<close>

lemma eciesEncrypt_Inr_D:
  assumes "eciesEncrypt P pk msg rng = Inr (env, rng')"
  shows "\<exists>X e rng1 E ss k n a c.
     edwardsToMontgomeryPub P pk = Inr X \<and>
     x25519_randomPrivateKey P rng = Inr (e, rng1) \<and>
     x25519_getPublicKey P e = Inr E \<and>
     x25519_getSharedSecret P e X = Inr ss \<and>
     hkdf_sha256 P ss None (utf8_encode P ''suite25519-aes-key'') 32 = Inr k \<and>
     randomBytes P 12 rng1 = Inr (n, rng') \<and>
     siv P k n = Inr a \<and> encrypt a msg = Inr c \<and>
     env = JObject [(''C'', JBytes c), (''P_e'', JBytes E), (''N'', JBytes n)]"
  using assms
  unfolding eciesEncrypt_def deriveAesKey_def Let_def catch_rethrow_eq_Inr bind_err_eq_Inr
  by (auto simp: bind_err_eq_Inr)

lemma eciesEncrypt_Inr_I:
  assumes "edwardsToMontgomeryPub P pk = Inr X"
    and "x25519_randomPrivateKey P rng = Inr (e, rng1)"
    and "x25519_getPublicKey P e = Inr E"
    and "x25519_getSharedSecret P e X = Inr ss"
    and "hkdf_sha256 P ss None (utf8_encode P ''suite25519-aes-key'') 32 = Inr k"
    and "randomBytes P 12 rng1 = Inr (n, rng2)"
    and "siv P k n = Inr a" and "encrypt a msg = Inr c"
  shows "eciesEncrypt P pk msg rng =
           Inr (JObject [(''C'', JBytes c), (''P_e'', JBytes E), (''N'', JBytes n)], rng2)"
  using assms by (simp add: eciesEncrypt_def deriveAesKey_def)

lemma eciesDecrypt_Inr_I:
  assumes "edwardsToMontgomeryPriv P sk = Inr x"
    and "x25519_getSharedSecret P x E = Inr ss"
    and "hkdf_sha256 P ss None (utf8_encode P ''suite25519-aes-key'') 32 = Inr k"
    and "siv P k n = Inr a" and "decrypt a c = Inr msg"
  shows "eciesDecrypt P sk E n c = Inr msg"
  using assms by (simp add: eciesDecrypt_def deriveAesKey_def)

lemma eciesDecrypt_tag_failure:
  assumes "edwardsToMontgomeryPriv P sk = Inr x"
    and "x25519_getSharedSecret P x E = Inr ss"
    and "hkdf_sha256 P ss None (utf8_encode P ''suite25519-aes-key'') 32 = Inr k"
    and "siv P k n = Inr a" and "decrypt a c = Inl e"
  shows "eciesDecrypt P sk E n c =
           Inl (Error ''eciesDecrypt failed: Decryption failed (authentication tag mismatch or other error)'')"
  using assms by (simp add: eciesDecrypt_def deriveAesKey_def)

lemma decryptMessage_envelope:
  assumes "cbor_decode P payload = Inr decoded"
    and "get_prop decoded ''C'' = JBytes c"
    and "get_prop decoded ''P_e'' = JBytes E"
    and "get_prop decoded ''N'' = JBytes n"
  shows "decryptMessage P payload sk = eciesDecrypt P (PrivateKey_data sk) E n c"
  using assms get_prop_Bytes_destructure [OF assms(2)]
  by (simp add: decryptMessage_def)

lemma ecies_round_trip:
  assumes "agreement_correct P" and "random_source_ok P" and "kdf_ok P" and "aead_correct P"
    and "ed25519_getPublicKey P sk = Inr pk"
  shows "\<exists>c E n rng'.
           eciesEncrypt P pk msg rng =
             Inr (JObject [(''C'', JBytes c), (''P_e'', JBytes E), (''N'', JBytes n)], rng') \<and>
           eciesDecrypt P sk E n c = Inr msg"
proof -
  obtain e rng1 where e: "x25519_randomPrivateKey P rng = Inr (e, rng1)"
    using assms(2) unfolding random_source_ok_def by blast
  obtain X x E ss where X: "edwardsToMontgomeryPub P pk = Inr X"
    and x: "edwardsToMontgomeryPriv P sk = Inr x"
    and E: "x25519_getPublicKey P e = Inr E"
    and s1: "x25519_getSharedSecret P e X = Inr ss"
    and s2: "x25519_getSharedSecret P x E = Inr ss"
    using assms(1,5) e unfolding agreement_correct_def by blast
  obtain k where k: "hkdf_sha256 P ss None (utf8_encode P ''suite25519-aes-key'') 32 = Inr k"
    and lk: "length k = 32"
    using assms(3) unfolding kdf_ok_def by blast
  obtain n rng2 where n: "randomBytes P 12 rng1 = Inr (n, rng2)" and ln: "length n = 12"
    using assms(2) unfolding random_source_ok_def by blast
  obtain a c where a: "siv P k n = Inr a" and c: "encrypt a msg = Inr c" and d: "decrypt a c = Inr msg"
    using assms(4) lk ln unfolding aead_correct_def by blast
  show ?thesis
    using eciesEncrypt_Inr_I [OF X e E s1 k n a c] eciesDecrypt_Inr_I [OF x s2 k a d]
    by blast
qed



section \<open>What a returned result implies\<close>










subsection \<open>Which error a failing step produces\<close>
















subsection \<open>Runs of the small instance\<close>

lemma toy_id_distinct:
  "PublicKey_id toy (PublicKey (replicate 32 21)) \<noteq> PublicKey_id toy (PublicKey (replicate 32 9))"
  by code_simp

lemma toy_publicKey_7:
  "PrivateKey_publicKey toy (PrivateKey (replicate 32 7)) = Inr (PublicKey (replicate 32 21))"
  by (simp add: PrivateKey_publicKey_def toy_def toy_scalarMult_def)

lemma toy_decode_encoded:
  "\<forall>kv\<in>set kvs. is_Uint8Array (snd kv) \<Longrightarrow>
   cbor_decode toy (cbor_encode toy (JObject kvs)) = Inr (JObject kvs)"
  by (simp add: toy_def toy_decode_def toy_dec_entries)

lemma toy_verify_signed:
  "verifyMessage toy
     (cbor_encode toy (JObject [(''sig'', JBytes (replicate 32 21 @ toy_digest [1, 2, 3])),
                                (''m'', JBytes [1, 2, 3]), (''P'', JBytes (replicate 32 21))]))
     (PublicKey (replicate 32 21)) = Inr [1, 2, 3]"
proof -
  have v: "ed25519_verify toy (replicate 32 21 @ toy_digest [1, 2, 3]) [1, 2, 3] (replicate 32 21) = Inr True"
    by (simp add: toy_def toy_digest_def)
  show ?thesis
    by (subst verifyMessage_full [OF toy_decode_encoded]) (simp_all add: v)
qed


lemma toy_eciesEncrypt_run:
  "eciesEncrypt toy (replicate 32 21) [1, 2, 3] 5 =
     Inr (JObject [(''C'', JBytes (replicate 16 105 @ [1, 2, 3])),
                   (''P_e'', JBytes (replicate 32 15)),
                   (''N'', JBytes (replicate 12 6))], 7)"
  by (simp add: eciesEncrypt_def deriveAesKey_def toy_def toy_siv_def toy_scalarMult_def)

lemma toy_tampered_tag:
  "\<exists>a e. siv toy (replicate 32 105) (replicate 12 6) = Inr a \<and>
          decrypt a (104 # replicate 15 105 @ [1, 2, 3]) = Inl e"
proof -
  have "take 16 (104 # replicate 15 105 @ [1, 2, 3 :: 8 word]) \<noteq> replicate 16 105"
    by (simp add: eval_nat_numeral)
  then show ?thesis
    by (simp add: toy_def toy_siv_def)
qed

lemma toy_key_id:
  "PublicKey_id toy (PublicKey (replicate 32 21)) = ''1515151515151515151515151515151515151515''"
  by code_simp














section \<open>Properties of signing and verifying\<close>




text \<open>
  Claim C5 (key mismatch is reported before the signature is checked). Three facts about
  \<open>verifyMessage\<close>. First: when the decoded payload passes the structure checks and carries
  a field \<^verbatim>\<open>P\<close> whose KeyId differs from the KeyId of the expected key, the result is the
  key-mismatch error, whatever the signature is and whether or not a message is included.
  Second: when verification succeeds on a payload that carries \<^verbatim>\<open>P\<close>, the two KeyIds are
  equal. Third: a message signed by A with both flags \<^verbatim>\<open>true\<close> and verified against a key
  B whose KeyId differs from A's yields the key-mismatch error, not the invalid-signature
  error. The code compares KeyIds, so "distinct keys" is read as "distinct KeyIds".
\<close>

theorem key_mismatch_before_signature:
  "(cbor_decode P payload = Inr decoded \<longrightarrow>
    get_prop decoded ''sig'' = JBytes s \<longrightarrow>
    get_prop decoded ''m'' = JUndefined \<or> is_Uint8Array (get_prop decoded ''m'') \<longrightarrow>
    get_prop decoded ''P'' = JBytes p \<longrightarrow>
    PublicKey_id P (PublicKey p) \<noteq> PublicKey_id P expected \<longrightarrow>
    verifyMessage P payload expected =
      Inl (Error ''Verification failed: Included public key 'P' does not match expected senderPublicKey.''))
   \<and>
   (verifyMessage P payload' expected' = Inr r \<longrightarrow>
    cbor_decode P payload' = Inr decoded' \<longrightarrow>
    get_prop decoded' ''P'' = JBytes p' \<longrightarrow>
    PublicKey_id P (PublicKey p') = PublicKey_id P expected')
   \<and>
   (cbor_roundtrip P \<longrightarrow> signature_correct P \<longrightarrow>
    as_Message P m = Inr msg \<longrightarrow>
    PrivateKey_publicKey P privA = Inr pubA \<longrightarrow>
    PublicKey_id P pubA \<noteq> PublicKey_id P pubB \<longrightarrow>
    bind_err (signMessage P m privA (JBool True) (JBool True))
      (\<lambda>signedPayload. verifyMessage P signedPayload pubB) =
      Inl (Error ''Verification failed: Included public key 'P' does not match expected senderPublicKey.''))"
proof (intro conjI impI)
  assume "cbor_decode P payload = Inr decoded" "get_prop decoded ''sig'' = JBytes s"
    "get_prop decoded ''m'' = JUndefined \<or> is_Uint8Array (get_prop decoded ''m'')"
    "get_prop decoded ''P'' = JBytes p"
    "PublicKey_id P (PublicKey p) \<noteq> PublicKey_id P expected"
  then show "verifyMessage P payload expected =
      Inl (Error ''Verification failed: Included public key 'P' does not match expected senderPublicKey.'')"
    by (rule verifyMessage_mismatch)
next
  assume "verifyMessage P payload' expected' = Inr r" "cbor_decode P payload' = Inr decoded'"
    "get_prop decoded' ''P'' = JBytes p'"
  then show "PublicKey_id P (PublicKey p') = PublicKey_id P expected'"
    by (auto elim!: verifyMessage_Inr_D)
next
  assume c: "cbor_roundtrip P" and sc: "signature_correct P"
    and m: "as_Message P m = Inr msg"
    and k: "PrivateKey_publicKey P privA = Inr pubA"
    and ne: "PublicKey_id P pubA \<noteq> PublicKey_id P pubB"
  have pk: "ed25519_getPublicKey P (PrivateKey_data privA) = Inr (PublicKey_data pubA)"
    using k by (rule publicKey_data)
  obtain s where s: "ed25519_sign P (Message_data msg) (PrivateKey_data privA) = Inr s"
    using sc pk unfolding signature_correct_def by blast
  let ?obj = "JObject [(''sig'', JBytes s), (''m'', JBytes (Message_data msg)),
                       (''P'', JBytes (PublicKey_data pubA))]"
  have dec: "cbor_decode P (cbor_encode P ?obj) = Inr ?obj"
    using c by (rule decode_encoded) (simp_all add: envelope_keys_def)
  show "bind_err (signMessage P m privA (JBool True) (JBool True))
      (\<lambda>signedPayload. verifyMessage P signedPayload pubB) =
      Inl (Error ''Verification failed: Included public key 'P' does not match expected senderPublicKey.'')"
    using ne by (simp add: signMessage_included [OF m s k] verifyMessage_full [OF dec])
qed

text \<open>In the small instance: a payload with an empty signature and no message, checked
  against another key; a successful verification; and the message signed by one key and
  verified against another.\<close>

theorem key_mismatch_before_signature_witness:
  "(cbor_decode toy (cbor_encode toy (JObject [(''sig'', JBytes []), (''P'', JBytes (replicate 32 21))]))
      = Inr (JObject [(''sig'', JBytes []), (''P'', JBytes (replicate 32 21))]) \<and>
    PublicKey_id toy (PublicKey (replicate 32 21)) \<noteq> PublicKey_id toy (PublicKey (replicate 32 9)) \<and>
    verifyMessage toy (cbor_encode toy (JObject [(''sig'', JBytes []), (''P'', JBytes (replicate 32 21))]))
      (PublicKey (replicate 32 9)) =
      Inl (Error ''Verification failed: Included public key 'P' does not match expected senderPublicKey.''))
   \<and>
   (verifyMessage toy
      (cbor_encode toy (JObject [(''sig'', JBytes (replicate 32 21 @ toy_digest [1, 2, 3])),
                                 (''m'', JBytes [1, 2, 3]), (''P'', JBytes (replicate 32 21))]))
      (PublicKey (replicate 32 21)) = Inr [1, 2, 3] \<and>
    PublicKey_id toy (PublicKey (replicate 32 21)) = PublicKey_id toy (PublicKey (replicate 32 21)))
   \<and>
   (cbor_roundtrip toy \<and> signature_correct toy \<and>
    as_Message toy (OfValue (JBytes [1, 2, 3])) = Inr (Message [1, 2, 3]) \<and>
    PrivateKey_publicKey toy (PrivateKey (replicate 32 7)) = Inr (PublicKey (replicate 32 21)) \<and>
    bind_err (signMessage toy (OfValue (JBytes [1, 2, 3])) (PrivateKey (replicate 32 7)) (JBool True) (JBool True))
      (\<lambda>signedPayload. verifyMessage toy signedPayload (PublicKey (replicate 32 9))) =
      Inl (Error ''Verification failed: Included public key 'P' does not match expected senderPublicKey.''))"
proof -
  let ?o1 = "JObject [(''sig'', JBytes []), (''P'', JBytes (replicate 32 21))]"
  let ?o2 = "JObject [(''sig'', JBytes (replicate 32 21 @ toy_digest [1, 2, 3])),
                      (''m'', JBytes [1, 2, 3]), (''P'', JBytes (replicate 32 21))]"
  have d1: "cbor_decode toy (cbor_encode toy ?o1) = Inr ?o1"
    by (rule toy_decode_encoded) simp
  have d2: "cbor_decode toy (cbor_encode toy ?o2) = Inr ?o2"
    by (rule toy_decode_encoded) simp
  have m: "as_Message toy (OfValue (JBytes [1, 2, 3])) = Inr (Message [1, 2, 3])"
    by (simp add: as_Message_def new_Message_def)
  note T = key_mismatch_before_signature [where P = toy and pubB = "PublicKey (replicate 32 9)"
      and payload = "cbor_encode toy ?o1" and decoded = ?o1 and s = "[]" and p = "replicate 32 21"
      and expected = "PublicKey (replicate 32 9)"
      and payload' = "cbor_encode toy ?o2" and decoded' = ?o2 and p' = "replicate 32 21"
      and expected' = "PublicKey (replicate 32 21)" and r = "[1, 2, 3]"
      and m = "OfValue (JBytes [1, 2, 3])" and msg = "Message [1, 2, 3]"
      and privA = "PrivateKey (replicate 32 7)" and pubA = "PublicKey (replicate 32 21)"]
  have c1: "verifyMessage toy (cbor_encode toy ?o1) (PublicKey (replicate 32 9)) =
      Inl (Error ''Verification failed: Included public key 'P' does not match expected senderPublicKey.'')"
    using T [THEN conjunct1] d1 toy_id_distinct by simp
  have c3: "bind_err (signMessage toy (OfValue (JBytes [1, 2, 3])) (PrivateKey (replicate 32 7)) (JBool True) (JBool True))
      (\<lambda>signedPayload. verifyMessage toy signedPayload (PublicKey (replicate 32 9))) =
      Inl (Error ''Verification failed: Included public key 'P' does not match expected senderPublicKey.'')"
    using T [THEN conjunct2, THEN conjunct2] toy_cbor_roundtrip toy_signature_correct m
      toy_publicKey_7 toy_id_distinct by blast
  show ?thesis
    using c1 c3 d1 toy_id_distinct toy_verify_signed toy_cbor_roundtrip toy_signature_correct m
      toy_publicKey_7 by blast
qed

text \<open>
  Claim C6 (the message must travel with the signature). First: a payload whose decoded
  record has no field \<^verbatim>\<open>m\<close> is never verified, \<open>verifyMessage\<close> returns an error.
  Second: when \<open>verifyMessage\<close> returns, the value returned is the field \<^verbatim>\<open>m\<close> of the
  payload, and the signature primitive accepted the field \<^verbatim>\<open>sig\<close> for it under the
  expected key. Third: when \<^verbatim>\<open>m\<close> is present, the structure and key checks pass and the
  signature primitive does not accept the signature, the result is the invalid-signature error.
\<close>

theorem verify_requires_message:
  "(cbor_decode P payload = Inr decoded \<longrightarrow> get_prop decoded ''m'' = JUndefined \<longrightarrow>
      (\<exists>e. verifyMessage P payload pk = Inl e))
   \<and>
   (verifyMessage P payload' pk' = Inr r \<longrightarrow>
      (\<exists>decoded' s'. cbor_decode P payload' = Inr decoded' \<and>
         get_prop decoded' ''m'' = JBytes r \<and> get_prop decoded' ''sig'' = JBytes s' \<and>
         ed25519_verify P s' r (PublicKey_data pk') = Inr True))
   \<and>
   (cbor_decode P payload'' = Inr decoded'' \<longrightarrow>
    get_prop decoded'' ''sig'' = JBytes s \<longrightarrow>
    get_prop decoded'' ''m'' = JBytes mb \<longrightarrow>
    get_prop decoded'' ''P'' = JUndefined \<or>
      (\<exists>p. get_prop decoded'' ''P'' = JBytes p \<and> PublicKey_id P (PublicKey p) = PublicKey_id P pk'') \<longrightarrow>
    ed25519_verify P s mb (PublicKey_data pk'') \<noteq> Inr True \<longrightarrow>
    verifyMessage P payload'' pk'' = Inl (Error ''Verification failed: Invalid signature.''))"
proof (intro conjI impI)
  assume "cbor_decode P payload = Inr decoded" "get_prop decoded ''m'' = JUndefined"
  then show "\<exists>e. verifyMessage P payload pk = Inl e"
    by (rule verifyMessage_no_message)
next
  assume "verifyMessage P payload' pk' = Inr r"
  then show "\<exists>decoded' s'. cbor_decode P payload' = Inr decoded' \<and>
         get_prop decoded' ''m'' = JBytes r \<and> get_prop decoded' ''sig'' = JBytes s' \<and>
         ed25519_verify P s' r (PublicKey_data pk') = Inr True"
    by (auto elim!: verifyMessage_Inr_D)
next
  assume "cbor_decode P payload'' = Inr decoded''" "get_prop decoded'' ''sig'' = JBytes s"
    "get_prop decoded'' ''m'' = JBytes mb"
    "get_prop decoded'' ''P'' = JUndefined \<or>
      (\<exists>p. get_prop decoded'' ''P'' = JBytes p \<and> PublicKey_id P (PublicKey p) = PublicKey_id P pk'')"
    "ed25519_verify P s mb (PublicKey_data pk'') \<noteq> Inr True"
  then show "verifyMessage P payload'' pk'' = Inl (Error ''Verification failed: Invalid signature.'')"
    by (rule verifyMessage_bad_signature)
qed


text \<open>In the small instance: a payload holding only a signature, a successfully verified
  payload, and a payload whose signature is one byte long.\<close>

theorem verify_requires_message_witness:
  "(cbor_decode toy (cbor_encode toy (JObject [(''sig'', JBytes [])])) = Inr (JObject [(''sig'', JBytes [])]) \<and>
    get_prop (JObject [(''sig'', JBytes [])]) ''m'' = JUndefined \<and>
    (\<exists>e. verifyMessage toy (cbor_encode toy (JObject [(''sig'', JBytes [])])) (PublicKey (replicate 32 21)) = Inl e))
   \<and>
   (verifyMessage toy
      (cbor_encode toy (JObject [(''sig'', JBytes (replicate 32 21 @ toy_digest [1, 2, 3])),
                                 (''m'', JBytes [1, 2, 3]), (''P'', JBytes (replicate 32 21))]))
      (PublicKey (replicate 32 21)) = Inr [1, 2, 3] \<and>
    (\<exists>decoded' s'.
        cbor_decode toy
          (cbor_encode toy (JObject [(''sig'', JBytes (replicate 32 21 @ toy_digest [1, 2, 3])),
                                     (''m'', JBytes [1, 2, 3]), (''P'', JBytes (replicate 32 21))]))
          = Inr decoded' \<and>
        get_prop decoded' ''m'' = JBytes [1, 2, 3] \<and> get_prop decoded' ''sig'' = JBytes s' \<and>
        ed25519_verify toy s' [1, 2, 3] (replicate 32 21) = Inr True))
   \<and>
   (cbor_decode toy (cbor_encode toy (JObject [(''sig'', JBytes [0]), (''m'', JBytes [1, 2, 3])]))
      = Inr (JObject [(''sig'', JBytes [0]), (''m'', JBytes [1, 2, 3])]) \<and>
    ed25519_verify toy [0] [1, 2, 3] (replicate 32 21) \<noteq> Inr True \<and>
    verifyMessage toy (cbor_encode toy (JObject [(''sig'', JBytes [0]), (''m'', JBytes [1, 2, 3])]))
      (PublicKey (replicate 32 21)) = Inl (Error ''Verification failed: Invalid signature.''))"
proof -
  let ?o1 = "JObject [(''sig'', JBytes [])]"
  let ?o2 = "JObject [(''sig'', JBytes (replicate 32 21 @ toy_digest [1, 2, 3])),
                      (''m'', JBytes [1, 2, 3]), (''P'', JBytes (replicate 32 21))]"
  let ?o3 = "JObject [(''sig'', JBytes [0]), (''m'', JBytes [1, 2, 3])]"
  have d1: "cbor_decode toy (cbor_encode toy ?o1) = Inr ?o1"
    by (rule toy_decode_encoded) simp
  have d3: "cbor_decode toy (cbor_encode toy ?o3) = Inr ?o3"
    by (rule toy_decode_encoded) simp
  have v3: "ed25519_verify toy [0] [1, 2, 3] (replicate 32 21) \<noteq> Inr True"
    by (simp add: toy_def)
  note T = verify_requires_message [where P = toy
      and payload = "cbor_encode toy ?o1" and decoded = ?o1 and pk = "PublicKey (replicate 32 21)"
      and payload' = "cbor_encode toy ?o2" and pk' = "PublicKey (replicate 32 21)" and r = "[1, 2, 3]"
      and payload'' = "cbor_encode toy ?o3" and decoded'' = ?o3 and pk'' = "PublicKey (replicate 32 21)"
      and s = "[0]" and mb = "[1, 2, 3]"]
  have c1: "\<exists>e. verifyMessage toy (cbor_encode toy ?o1) (PublicKey (replicate 32 21)) = Inl e"
    using T [THEN conjunct1] d1 by simp
  have c2: "\<exists>decoded' s'. cbor_decode toy (cbor_encode toy ?o2) = Inr decoded' \<and>
        get_prop decoded' ''m'' = JBytes [1, 2, 3] \<and> get_prop decoded' ''sig'' = JBytes s' \<and>
        ed25519_verify toy s' [1, 2, 3] (replicate 32 21) = Inr True"
    using T [THEN conjunct2, THEN conjunct1] toy_verify_signed by simp
  have c3: "verifyMessage toy (cbor_encode toy ?o3) (PublicKey (replicate 32 21))
              = Inl (Error ''Verification failed: Invalid signature.'')"
    using T [THEN conjunct2, THEN conjunct2] d3 v3 by simp
  have g: "get_prop ?o1 ''m'' = JUndefined" by simp
  show ?thesis
    using c1 c2 c3 d1 d3 v3 g toy_verify_signed by blast
qed

text \<open>
  Claim C10 (default flags). The inclusion flags of \<open>signMessage\<close> default to \<^verbatim>\<open>false\<close>:
  the call without flags is the call with both flags \<^verbatim>\<open>false\<close>. For every message and
  every private key with a derived public key, that call succeeds, and verifying its payload
  against the derived public key fails with the missing-message error.
\<close>

theorem default_flags_unverifiable:
  assumes "cbor_roundtrip P" and "signature_correct P"
    and "as_Message P m = Inr msg"
    and "PrivateKey_publicKey P priv = Inr pub"
  shows "signMessage P m priv JUndefined JUndefined = signMessage P m priv (JBool False) (JBool False) \<and>
         (\<exists>signedPayload. signMessage P m priv JUndefined JUndefined = Inr signedPayload \<and>
            verifyMessage P signedPayload pub =
              Inl (Error ''Verification failed: Message 'm' not included in the signed payload.''))"
proof -
  have pk: "ed25519_getPublicKey P (PrivateKey_data priv) = Inr (PublicKey_data pub)"
    using assms(4) by (rule publicKey_data)
  obtain s where s: "ed25519_sign P (Message_data msg) (PrivateKey_data priv) = Inr s"
    using assms(2) pk unfolding signature_correct_def by blast
  have dec: "cbor_decode P (cbor_encode P (JObject [(''sig'', JBytes s)])) = Inr (JObject [(''sig'', JBytes s)])"
    using assms(1) by (rule decode_encoded) (simp_all add: envelope_keys_def)
  show ?thesis
  proof (intro conjI exI)
    show "signMessage P m priv JUndefined JUndefined = signMessage P m priv (JBool False) (JBool False)"
      by (simp add: signMessage_def default_param_def)
    show "signMessage P m priv JUndefined JUndefined = Inr (cbor_encode P (JObject [(''sig'', JBytes s)]))"
      using assms(3) s by (rule signMessage_bare)
    show "verifyMessage P (cbor_encode P (JObject [(''sig'', JBytes s)])) pub =
            Inl (Error ''Verification failed: Message 'm' not included in the signed payload.'')"
      using dec by (rule verifyMessage_signature_only)
  qed
qed

text \<open>In the small instance, for the message of bytes 1, 2, 3.\<close>

theorem default_flags_unverifiable_witness:
  "cbor_roundtrip toy \<and> signature_correct toy \<and>
   as_Message toy (OfValue (JBytes [1, 2, 3])) = Inr (Message [1, 2, 3]) \<and>
   PrivateKey_publicKey toy (PrivateKey (replicate 32 7)) = Inr (PublicKey (replicate 32 21)) \<and>
   (\<exists>signedPayload.
      signMessage toy (OfValue (JBytes [1, 2, 3])) (PrivateKey (replicate 32 7)) JUndefined JUndefined
        = Inr signedPayload \<and>
      verifyMessage toy signedPayload (PublicKey (replicate 32 21)) =
        Inl (Error ''Verification failed: Message 'm' not included in the signed payload.''))"
proof -
  have m: "as_Message toy (OfValue (JBytes [1, 2, 3])) = Inr (Message [1, 2, 3])"
    by (simp add: as_Message_def new_Message_def)
  have k: "PrivateKey_publicKey toy (PrivateKey (replicate 32 7)) = Inr (PublicKey (replicate 32 21))"
    by (simp add: PrivateKey_publicKey_def toy_def toy_scalarMult_def)
  show ?thesis
    using default_flags_unverifiable [OF toy_cbor_roundtrip toy_signature_correct m k]
      toy_cbor_roundtrip toy_signature_correct m k
    by blast
qed

section \<open>Properties of encryption\<close>





text \<open>
  Claim C4 (authentication failure). Whenever the payload decodes to an envelope with the
  three byte fields, the key is derived and the cipher object is built, and the tag check of
  \<^verbatim>\<open>aes.decrypt\<close> fails (throws, for whatever reason: flipped ciphertext bit, a private
  key that does not match, a wrong nonce), \<open>decryptMessage\<close> returns no plaintext but one
  fixed error that does not depend on what was thrown.
\<close>

theorem decrypt_tag_failure:
  assumes "cbor_decode P encryptedPayload = Inr decoded"
    and "get_prop decoded ''C'' = JBytes C"
    and "get_prop decoded ''P_e'' = JBytes P_e"
    and "get_prop decoded ''N'' = JBytes N"
    and "edwardsToMontgomeryPriv P (PrivateKey_data recipientPrivateKey) = Inr x"
    and "x25519_getSharedSecret P x P_e = Inr sharedSecret"
    and "deriveAesKey P sharedSecret = Inr aesKey"
    and "siv P aesKey N = Inr a"
    and "decrypt a C = Inl e"
  shows "decryptMessage P encryptedPayload recipientPrivateKey =
           Inl (Error ''eciesDecrypt failed: Decryption failed (authentication tag mismatch or other error)'')"
proof -
  have k: "hkdf_sha256 P sharedSecret None (utf8_encode P ''suite25519-aes-key'') 32 = Inr aesKey"
    using assms(7) by (simp add: deriveAesKey_def)
  show ?thesis
    by (simp add: decryptMessage_envelope [OF assms(1-4)]
          eciesDecrypt_tag_failure [OF assms(5,6) k assms(8,9)])
qed

text \<open>In the small instance: the envelope of a message with one bit of the tag flipped.\<close>

theorem decrypt_tag_failure_witness:
  "cbor_decode toy
     (cbor_encode toy (JObject [(''C'', JBytes (104 # replicate 15 105 @ [1, 2, 3])),
                                (''P_e'', JBytes (replicate 32 15)),
                                (''N'', JBytes (replicate 12 6))]))
     = Inr (JObject [(''C'', JBytes (104 # replicate 15 105 @ [1, 2, 3])),
                     (''P_e'', JBytes (replicate 32 15)),
                     (''N'', JBytes (replicate 12 6))]) \<and>
   edwardsToMontgomeryPriv toy (replicate 32 7) = Inr (replicate 32 7) \<and>
   x25519_getSharedSecret toy (replicate 32 7) (replicate 32 15) = Inr (replicate 32 105) \<and>
   deriveAesKey toy (replicate 32 105) = Inr (replicate 32 105) \<and>
   (\<exists>a e. siv toy (replicate 32 105) (replicate 12 6) = Inr a \<and>
           decrypt a (104 # replicate 15 105 @ [1, 2, 3]) = Inl e) \<and>
   decryptMessage toy
     (cbor_encode toy (JObject [(''C'', JBytes (104 # replicate 15 105 @ [1, 2, 3])),
                                (''P_e'', JBytes (replicate 32 15)),
                                (''N'', JBytes (replicate 12 6))]))
     (PrivateKey (replicate 32 7))
     = Inl (Error ''eciesDecrypt failed: Decryption failed (authentication tag mismatch or other error)'')"
proof -
  let ?obj = "JObject [(''C'', JBytes (104 # replicate 15 105 @ [1, 2, 3])),
                       (''P_e'', JBytes (replicate 32 15)),
                       (''N'', JBytes (replicate 12 6))]"
  have d: "cbor_decode toy (cbor_encode toy ?obj) = Inr ?obj"
    by (rule toy_decode_encoded) simp
  have x: "edwardsToMontgomeryPriv toy (PrivateKey_data (PrivateKey (replicate 32 7))) = Inr (replicate 32 7)"
    by (simp add: toy_def)
  have ss: "x25519_getSharedSecret toy (replicate 32 7) (replicate 32 15) = Inr (replicate 32 105)"
    by (simp add: toy_def)
  have k: "deriveAesKey toy (replicate 32 105) = Inr (replicate 32 105)"
    by (simp add: deriveAesKey_def toy_def)
  obtain a e where a: "siv toy (replicate 32 105) (replicate 12 6) = Inr a"
    and t: "decrypt a (104 # replicate 15 105 @ [1, 2, 3]) = Inl e"
    using toy_tampered_tag by blast
  have "decryptMessage toy (cbor_encode toy ?obj) (PrivateKey (replicate 32 7))
     = Inl (Error ''eciesDecrypt failed: Decryption failed (authentication tag mismatch or other error)'')"
    by (rule decrypt_tag_failure [OF d _ _ _ x ss k a t]) simp_all
  then show ?thesis
    using d x ss k a t by auto
qed

text \<open>
  Claim C7 (fresh ephemeral key and nonce, key derivation, envelope). Every call of
  \<open>eciesEncrypt\<close> that returns has drawn an ephemeral private key from the random source
  at the state it was given, has drawn a 12-byte nonce from the state after that draw, and
  hands back the state after both draws; the 32-byte key is \<^verbatim>\<open>hkdf\<close> over the raw
  shared secret with no salt and the fixed label \<^verbatim>\<open>suite25519-aes-key\<close>; the envelope
  has the three fields \<^verbatim>\<open>C\<close>, \<^verbatim>\<open>P_e\<close> (the ephemeral public key) and \<^verbatim>\<open>N\<close> (the
  nonce). And the call does return for every recipient key derived from a private key when
  the collaborators meet their contracts.
\<close>

theorem eciesEncrypt_fresh_key_and_nonce:
  assumes "random_source_ok P" and "kdf_ok P"
  shows "(eciesEncrypt P receiverPublicKeyEd msg rng = Inr (env, rng') \<longrightarrow>
            (\<exists>X e rng1 E ss k n a c.
               edwardsToMontgomeryPub P receiverPublicKeyEd = Inr X \<and>
               x25519_randomPrivateKey P rng = Inr (e, rng1) \<and>
               x25519_getPublicKey P e = Inr E \<and>
               x25519_getSharedSecret P e X = Inr ss \<and>
               hkdf_sha256 P ss None (utf8_encode P ''suite25519-aes-key'') 32 = Inr k \<and>
               deriveAesKey P ss = Inr k \<and> length k = 32 \<and>
               randomBytes P 12 rng1 = Inr (n, rng') \<and> length n = 12 \<and>
               siv P k n = Inr a \<and> encrypt a msg = Inr c \<and>
               get_prop env ''C'' = JBytes c \<and> get_prop env ''P_e'' = JBytes E \<and>
               get_prop env ''N'' = JBytes n))
         \<and>
         (agreement_correct P \<longrightarrow> aead_correct P \<longrightarrow> ed25519_getPublicKey P sk = Inr pk \<longrightarrow>
            (\<exists>env2 rng2. eciesEncrypt P pk msg2 rng0 = Inr (env2, rng2)))"
proof (intro conjI impI)
  assume r: "eciesEncrypt P receiverPublicKeyEd msg rng = Inr (env, rng')"
  obtain X e rng1 E ss k n a c where t:
    "edwardsToMontgomeryPub P receiverPublicKeyEd = Inr X"
    "x25519_randomPrivateKey P rng = Inr (e, rng1)"
    "x25519_getPublicKey P e = Inr E"
    "x25519_getSharedSecret P e X = Inr ss"
    "hkdf_sha256 P ss None (utf8_encode P ''suite25519-aes-key'') 32 = Inr k"
    "randomBytes P 12 rng1 = Inr (n, rng')"
    "siv P k n = Inr a" "encrypt a msg = Inr c"
    "env = JObject [(''C'', JBytes c), (''P_e'', JBytes E), (''N'', JBytes n)]"
    using eciesEncrypt_Inr_D [OF r] by blast
  have lk: "length k = 32"
    using assms(2) t(5) unfolding kdf_ok_def by (metis Inr_inject)
  have ln: "length n = 12"
    using assms(1) t(6) unfolding random_source_ok_def by (metis Inr_inject prod.inject)
  have dk: "deriveAesKey P ss = Inr k"
    using t(5) by (simp add: deriveAesKey_def)
  have "get_prop env ''C'' = JBytes c \<and> get_prop env ''P_e'' = JBytes E \<and> get_prop env ''N'' = JBytes n"
    by (simp add: t(9))
  then show "\<exists>X e rng1 E ss k n a c.
               edwardsToMontgomeryPub P receiverPublicKeyEd = Inr X \<and>
               x25519_randomPrivateKey P rng = Inr (e, rng1) \<and>
               x25519_getPublicKey P e = Inr E \<and>
               x25519_getSharedSecret P e X = Inr ss \<and>
               hkdf_sha256 P ss None (utf8_encode P ''suite25519-aes-key'') 32 = Inr k \<and>
               deriveAesKey P ss = Inr k \<and> length k = 32 \<and>
               randomBytes P 12 rng1 = Inr (n, rng') \<and> length n = 12 \<and>
               siv P k n = Inr a \<and> encrypt a msg = Inr c \<and>
               get_prop env ''C'' = JBytes c \<and> get_prop env ''P_e'' = JBytes E \<and>
               get_prop env ''N'' = JBytes n"
    using t(1-8) lk ln dk by blast
next
  assume "agreement_correct P" "aead_correct P" "ed25519_getPublicKey P sk = Inr pk"
  then show "\<exists>env2 rng2. eciesEncrypt P pk msg2 rng0 = Inr (env2, rng2)"
    using ecies_round_trip [OF _ assms(1,2), of sk pk msg2 rng0] by blast
qed


text \<open>A run of the small instance from the random state 5.\<close>

theorem eciesEncrypt_fresh_key_and_nonce_witness:
  "random_source_ok toy \<and> kdf_ok toy \<and> agreement_correct toy \<and> aead_correct toy \<and>
   ed25519_getPublicKey toy (replicate 32 7) = Inr (replicate 32 21) \<and>
   eciesEncrypt toy (replicate 32 21) [1, 2, 3] 5 =
     Inr (JObject [(''C'', JBytes (replicate 16 105 @ [1, 2, 3])),
                   (''P_e'', JBytes (replicate 32 15)),
                   (''N'', JBytes (replicate 12 6))], 7) \<and>
   (\<exists>X e rng1 E ss k n a c.
       edwardsToMontgomeryPub toy (replicate 32 21) = Inr X \<and>
       x25519_randomPrivateKey toy 5 = Inr (e, rng1) \<and>
       x25519_getPublicKey toy e = Inr E \<and>
       x25519_getSharedSecret toy e X = Inr ss \<and>
       hkdf_sha256 toy ss None (utf8_encode toy ''suite25519-aes-key'') 32 = Inr k \<and>
       deriveAesKey toy ss = Inr k \<and> length k = 32 \<and>
       randomBytes toy 12 rng1 = Inr (n, 7) \<and> length n = 12 \<and>
       siv toy k n = Inr a \<and> encrypt a [1, 2, 3] = Inr c \<and>
       JBytes (replicate 16 105 @ [1, 2, 3]) = JBytes c \<and>
       JBytes (replicate 32 15) = JBytes E \<and>
       JBytes (replicate 12 6) = JBytes n)"
proof -
  have g: "ed25519_getPublicKey toy (replicate 32 7) = Inr (replicate 32 21)"
    by (simp add: toy_def toy_scalarMult_def)
  note T = eciesEncrypt_fresh_key_and_nonce [OF toy_random_source_ok toy_kdf_ok,
      of "replicate 32 21" "[1, 2, 3]" 5
         "JObject [(''C'', JBytes (replicate 16 105 @ [1, 2, 3])),
                   (''P_e'', JBytes (replicate 32 15)),
                   (''N'', JBytes (replicate 12 6))]" 7]
  show ?thesis
    using T [THEN conjunct1] toy_eciesEncrypt_run g
      toy_random_source_ok toy_kdf_ok toy_agreement_correct toy_aead_correct
    by simp
qed

section \<open>Key identifiers\<close>

text \<open>
  Claim C8 (KeyId). The KeyId of a public key is the hexadecimal rendering of the hash of the
  key bytes: with a hash 20 bytes wide it has 40 characters, all of them digits or lowercase
  letters a to f, and each pair of characters reads back as the corresponding byte of the
  hash. Equal key bytes give equal KeyIds.
\<close>

theorem key_id_is_hex_of_hash:
  assumes "hash_width_ok P"
  shows "PublicKey_id P pk = bytesToHex (ripemd160 P (PublicKey_data pk)) \<and>
         length (PublicKey_id P pk) = 40 \<and>
         set (PublicKey_id P pk) \<subseteq> set ''0123456789abcdef'' \<and>
         (\<forall>i<20. 16 * hex_digit_value (PublicKey_id P pk ! (2 * i))
                   + hex_digit_value (PublicKey_id P pk ! (2 * i + 1))
                  = unat (ripemd160 P (PublicKey_data pk) ! i)) \<and>
         (PublicKey_data pk' = PublicKey_data pk \<longrightarrow> PublicKey_id P pk' = PublicKey_id P pk)"
proof -
  have l: "length (ripemd160 P (PublicKey_data pk)) = 20"
    using assms by (simp add: hash_width_ok_def)
  have "set (PublicKey_id P pk) \<subseteq> set hexes"
    by (simp add: PublicKey_id_def set_bytesToHex)
  then have "set (PublicKey_id P pk) \<subseteq> set ''0123456789abcdef''"
    by (simp add: hexes_def)
  moreover have "length (PublicKey_id P pk) = 40"
    by (simp add: PublicKey_id_def length_bytesToHex l)
  moreover have "\<forall>i<20. 16 * hex_digit_value (PublicKey_id P pk ! (2 * i))
                   + hex_digit_value (PublicKey_id P pk ! (2 * i + 1))
                  = unat (ripemd160 P (PublicKey_data pk) ! i)"
    using bytesToHex_value [of _ "ripemd160 P (PublicKey_data pk)"] l
    by (simp add: PublicKey_id_def)
  ultimately show ?thesis
    by (simp add: PublicKey_id_def)
qed

text \<open>In the small instance, whose hash of the key of bytes 21 starts with the byte 21
  (hexadecimal 15).\<close>

theorem key_id_is_hex_of_hash_witness:
  "hash_width_ok toy \<and>
   PublicKey_id toy (PublicKey (replicate 32 21)) = ''1515151515151515151515151515151515151515'' \<and>
   length (PublicKey_id toy (PublicKey (replicate 32 21))) = 40 \<and>
   (0::nat) < 20 \<and>
   16 * hex_digit_value (PublicKey_id toy (PublicKey (replicate 32 21)) ! (2 * 0))
     + hex_digit_value (PublicKey_id toy (PublicKey (replicate 32 21)) ! (2 * 0 + 1))
     = unat (ripemd160 toy (replicate 32 21) ! 0) \<and>
   unat (ripemd160 toy (replicate 32 21) ! 0) = 21 \<and>
   PublicKey_data (PublicKey (replicate 32 21)) = PublicKey_data (PublicKey (replicate 32 21)) \<and>
   PublicKey_id toy (PublicKey (replicate 32 21)) = PublicKey_id toy (PublicKey (replicate 32 21))"
proof -
  let ?pk = "PublicKey (replicate 32 21)"
  note T = key_id_is_hex_of_hash [OF toy_hash_width_ok, of ?pk ?pk]
  have a: "length (PublicKey_id toy ?pk) = 40"
    using T by blast
  have b: "16 * hex_digit_value (PublicKey_id toy ?pk ! (2 * 0))
             + hex_digit_value (PublicKey_id toy ?pk ! (2 * 0 + 1))
           = unat (ripemd160 toy (replicate 32 21) ! 0)"
    using T [THEN conjunct2, THEN conjunct2, THEN conjunct2, THEN conjunct1, rule_format, of 0]
    by simp
  have c: "PublicKey_id toy ?pk = PublicKey_id toy ?pk"
    using T by blast
  show ?thesis
  proof (intro conjI)
    show "hash_width_ok toy" by (rule toy_hash_width_ok)
    show "PublicKey_id toy ?pk = ''1515151515151515151515151515151515151515''" by (rule toy_key_id)
    show "length (PublicKey_id toy ?pk) = 40" by (rule a)
    show "(0::nat) < 20" by simp
    show "16 * hex_digit_value (PublicKey_id toy ?pk ! (2 * 0))
             + hex_digit_value (PublicKey_id toy ?pk ! (2 * 0 + 1))
           = unat (ripemd160 toy (replicate 32 21) ! 0)" by (rule b)
    show "unat (ripemd160 toy (replicate 32 21) ! 0) = 21"
      by (simp add: toy_def nth_append)
    show "PublicKey_data ?pk = PublicKey_data ?pk" by (rule refl)
    show "PublicKey_id toy ?pk = PublicKey_id toy ?pk" by (rule c)
  qed
qed

section \<open>Error propagation\<close>




end
